theory Spec2Isabelle
  imports Complex_Main "HOL-Library.Product_Lexorder"
begin

section \<open>Numbers and timestamps\<close>

text \<open>
  A Python float is a real number or one of the three special values that numpy and
  pandas produce instead of raising: plus infinity, minus infinity and NaN.  Division
  follows IEEE 754 on the special values: a nonzero number divided by zero is an infinity,
  zero divided by zero is NaN, and every comparison with NaN is false.  The sign of zero
  is not modelled.

  The operations below are exact.  The indicator engine and the Monte Carlo engine round
  the result of every operation to binary64 with \<open>fl\<close>, defined further down; the trade
  simulator and the sums of the metrics calculator are kept exact.
\<close>

datatype xfloat = Fin real | PInf | NInf | NaN




fun xmul :: "xfloat \<Rightarrow> xfloat \<Rightarrow> xfloat" where
  "xmul NaN _ = NaN"
| "xmul _ NaN = NaN"
| "xmul (Fin a) (Fin b) = Fin (a * b)"
| "xmul PInf (Fin b) = (if b > 0 then PInf else if b < 0 then NInf else NaN)"
| "xmul NInf (Fin b) = (if b > 0 then NInf else if b < 0 then PInf else NaN)"
| "xmul (Fin a) PInf = (if a > 0 then PInf else if a < 0 then NInf else NaN)"
| "xmul (Fin a) NInf = (if a > 0 then NInf else if a < 0 then PInf else NaN)"
| "xmul PInf PInf = PInf"
| "xmul NInf NInf = PInf"
| "xmul PInf NInf = NInf"
| "xmul NInf PInf = NInf"

fun xdiv :: "xfloat \<Rightarrow> xfloat \<Rightarrow> xfloat" where
  "xdiv NaN _ = NaN"
| "xdiv _ NaN = NaN"
| "xdiv (Fin a) (Fin b) =
     (if b \<noteq> 0 then Fin (a / b)
      else if a > 0 then PInf else if a < 0 then NInf else NaN)"
| "xdiv (Fin a) PInf = Fin 0"
| "xdiv (Fin a) NInf = Fin 0"
| "xdiv PInf (Fin b) = (if b \<ge> 0 then PInf else NInf)"
| "xdiv NInf (Fin b) = (if b \<ge> 0 then NInf else PInf)"
| "xdiv PInf _ = NaN"
| "xdiv NInf _ = NaN"



text \<open>
  Rounding to binary64: round to nearest, ties to even.  \<open>ulp x\<close> is the power of two
  that scales a positive \<open>x\<close> into \<open>[2^52, 2^53)\<close>, the spacing of the doubles around
  \<open>x\<close>.  The exponent range is unbounded: overflow to infinity and gradual underflow
  are not modelled.
\<close>

definition round_half_even :: "real \<Rightarrow> int" where
  "round_half_even y =
     (let f = \<lfloor>y\<rfloor>; d = y - of_int f
      in if d < 1/2 then f else if d > 1/2 then f + 1 else if even f then f else f + 1)"

function ulp :: "real \<Rightarrow> real" where
  "ulp x = (if 2 \<le> x then 2 * ulp (x / 2)
            else if 0 < x \<and> x < 1 then ulp (2 * x) / 2
            else 1 / 2 ^ 52)"
  by pat_completeness auto
termination
proof (relation "measure (\<lambda>x. if 1 \<le> x then nat \<lfloor>x\<rfloor> else nat \<lceil>1 / x\<rceil>)", goal_cases)
  case 1
  show ?case by simp
next
  case (2 x)
  then have "x / 2 \<le> x - 1" by simp
  then have "\<lfloor>x / 2\<rfloor> \<le> \<lfloor>x - 1\<rfloor>" by (rule floor_mono)
  then have "\<lfloor>x / 2\<rfloor> < \<lfloor>x\<rfloor>" by simp
  moreover have "0 < \<lfloor>x\<rfloor>" using 2 by simp
  ultimately show ?case using 2 by simp
next
  case (3 x)
  then have x: "0 < x" "x < 1" by simp_all
  then have y: "1 < 1 / x" by simp
  then have c: "2 \<le> \<lceil>1 / x\<rceil>" by linarith
  show ?case
  proof (cases "1 \<le> 2 * x")
    case True
    have "\<lfloor>2 * x\<rfloor> = 1" using True x by linarith
    then show ?thesis using True x c by simp
  next
    case False
    then have "2 < 1 / x" using x by (simp add: field_simps)
    then have "1 / (2 * x) \<le> 1 / x - 1" by (simp add: field_simps)
    then have "\<lceil>1 / (2 * x)\<rceil> \<le> \<lceil>1 / x - 1\<rceil>" by (rule ceiling_mono)
    then have "\<lceil>1 / (2 * x)\<rceil> < \<lceil>1 / x\<rceil>" by simp
    then show ?thesis using False x c by simp
  qed
qed

declare ulp.simps [simp del]

definition fl :: "real \<Rightarrow> real" where
  "fl x = (if x = 0 then 0
           else sgn x * (of_int (round_half_even (\<bar>x\<bar> / ulp \<bar>x\<bar>)) * ulp \<bar>x\<bar>))"

text \<open>The unit of a positive number is a power of two that puts it in \<open>[2^52, 2^53)\<close>.\<close>

definition is_unit :: "real \<Rightarrow> real \<Rightarrow> bool" where
  "is_unit x u = ((\<exists>k::int. u = 2 powr (of_int k)) \<and> 2 ^ 52 * u \<le> x \<and> x < 2 ^ 53 * u)"

text \<open>A float operation: the exact result, rounded when it is a number.\<close>

fun xround :: "xfloat \<Rightarrow> xfloat" where
  "xround (Fin a) = Fin (fl a)"
| "xround x = x"

definition fadd :: "real \<Rightarrow> real \<Rightarrow> real" where
  "fadd a b = fl (a + b)"

text \<open>
  A pandas Timestamp: a civil date and the nanoseconds since midnight.  Timestamps are
  compared through \<open>ts_key\<close> (months since year 0, day of month, time of day), which is
  the chronological order on valid dates.
\<close>

record timestamp =
  year :: int
  month :: int
  day :: int
  nanos :: int

definition month_index :: "timestamp \<Rightarrow> int" where
  "month_index t = year t * 12 + (month t - 1)"

definition ts_key :: "timestamp \<Rightarrow> int \<times> int \<times> int" where
  "ts_key t = (month_index t, day t, nanos t)"

definition ts_le :: "timestamp \<Rightarrow> timestamp \<Rightarrow> bool" where
  "ts_le a b = (ts_key a \<le> ts_key b)"

definition ts_less :: "timestamp \<Rightarrow> timestamp \<Rightarrow> bool" where
  "ts_less a b = (ts_key a < ts_key b)"

definition is_leap :: "int \<Rightarrow> bool" where
  "is_leap y = (y mod 4 = 0 \<and> (y mod 100 \<noteq> 0 \<or> y mod 400 = 0))"

definition days_in_month :: "int \<Rightarrow> int \<Rightarrow> int" where
  "days_in_month y m =
     (if m = 2 then (if is_leap y then 29 else 28)
      else if m = 4 \<or> m = 6 \<or> m = 9 \<or> m = 11 then 30 else 31)"

text \<open>
  \<open>t + pd.DateOffset(months=n)\<close>: the month moves by \<open>n\<close>, the day is clipped to the
  length of the target month, the time of day is kept.
\<close>

definition add_months :: "int \<Rightarrow> timestamp \<Rightarrow> timestamp" where
  "add_months n t =
     (let mi = month_index t + n; y = mi div 12; m = mi mod 12 + 1
      in t\<lparr>year := y, month := m, day := min (day t) (days_in_month y m)\<rparr>)"

text \<open>Days since 1970-01-01 of a civil date, and the calendar day of a timestamp.\<close>

definition days_from_civil :: "int \<Rightarrow> int \<Rightarrow> int \<Rightarrow> int" where
  "days_from_civil y m d =
     (let y' = (if m \<le> 2 then y - 1 else y);
          era = y' div 400;
          yoe = y' - era * 400;
          doy = (153 * (if m > 2 then m - 3 else m + 9) + 2) div 5 + d - 1;
          doe = yoe * 365 + yoe div 4 - yoe div 100 + doy
      in era * 146097 + doe - 719468)"

definition ts_nanos :: "timestamp \<Rightarrow> int" where
  "ts_nanos t = days_from_civil (year t) (month t) (day t) * 86400000000000 + nanos t"

definition calendar_day :: "timestamp \<Rightarrow> int \<times> int \<times> int" where
  "calendar_day t = (year t, month t, day t)"

section \<open>Trade simulator (backtest.py)\<close>

text \<open>The strategy parameters read from the configuration by \<open>ForexBacktester.__init__\<close>.\<close>

record config =
  risk_per_trade :: real
  daily_loss_limit :: real
  stop_loss_pips :: real
  take_profit_pips :: real
  initial_balance :: real

definition default_config :: config where
  "default_config = \<lparr>risk_per_trade = 1/2, daily_loss_limit = 3, stop_loss_pips = 8,
     take_profit_pips = 12, initial_balance = 10\<rparr>"

text \<open>
  A row of the signal frame, with the columns \<open>simulate_trades\<close> reads: the index
  (\<open>row.name\<close>), \<open>Close\<close>, \<open>Buy_Signal\<close> and \<open>Sell_Signal\<close>.
\<close>

record bar =
  time :: timestamp
  close :: real
  buy_signal :: int
  sell_signal :: int

datatype direction = BUY | SELL

datatype status = OPEN | CLOSED

record position =
  p_symbol :: string
  p_direction :: direction
  p_entry_price :: real
  p_entry_time :: timestamp
  p_lot_size :: real
  p_stop_loss :: real
  p_take_profit :: real
  p_status :: status

record trade =
  symbol :: string
  direction :: direction
  entry_price :: real
  exit_price :: real
  entry_time :: timestamp
  exit_time :: timestamp
  lot_size :: real
  pnl :: real
  duration :: int
  t_status :: status

text \<open>Python's \<open>round(x, 2)\<close>: to the nearest hundredth, ties to the even hundredth.\<close>

definition round2 :: "real \<Rightarrow> real" where
  "round2 x =
     (let y = x * 100; f = \<lfloor>y\<rfloor>; d = y - of_int f
      in of_int (if d < 1/2 then f else if d > 1/2 then f + 1
                 else if even f then f else f + 1) / 100)"

text \<open>
  \<open>calculate_position_size\<close>.  With a stop distance of zero the division raises
  ZeroDivisionError on a Python float balance and yields a non-finite value on a numpy
  one; the model stops with \<open>None\<close> in both cases.
\<close>

definition calculate_position_size :: "config \<Rightarrow> real \<Rightarrow> real \<Rightarrow> real \<Rightarrow> real option" where
  "calculate_position_size cfg bal price stop_loss_distance =
     (let risk_amount = bal * risk_per_trade cfg / 100
      in if stop_loss_distance * 100000 = 0 then None
         else (let lot = risk_amount / (stop_loss_distance * 100000);
                   lot1 = max lot (1/100);
                   lot2 = min lot1 1
               in Some (round2 lot2)))"

text \<open>\<open>sub in s\<close> on Python strings.\<close>

fun starts_with :: "string \<Rightarrow> string \<Rightarrow> bool" where
  "starts_with [] s = True"
| "starts_with (c # cs) [] = False"
| "starts_with (c # cs) (d # ds) = (c = d \<and> starts_with cs ds)"

fun str_contains :: "string \<Rightarrow> string \<Rightarrow> bool" where
  "str_contains sub [] = (sub = [])"
| "str_contains sub (c # cs) = (starts_with sub (c # cs) \<or> str_contains sub cs)"

definition open_position :: "config \<Rightarrow> direction \<Rightarrow> bar \<Rightarrow> string \<Rightarrow> real \<Rightarrow> position option" where
  "open_position cfg dir row symb bal =
     (let price = close row;
          pip_value = (if \<not> str_contains ''JPY'' symb then 1/10000 else 1/100);
          stop_loss_distance = stop_loss_pips cfg * pip_value;
          take_profit_distance = take_profit_pips cfg * pip_value;
          sl = (if dir = BUY then price - stop_loss_distance else price + stop_loss_distance);
          tp = (if dir = BUY then price + take_profit_distance else price - take_profit_distance)
      in case calculate_position_size cfg bal price stop_loss_distance of
           None \<Rightarrow> None
         | Some lot \<Rightarrow>
             Some \<lparr>p_symbol = symb, p_direction = dir, p_entry_price = price,
                   p_entry_time = time row, p_lot_size = lot, p_stop_loss = sl,
                   p_take_profit = tp, p_status = OPEN\<rparr>)"

definition should_close_position :: "position \<Rightarrow> bar \<Rightarrow> bool" where
  "should_close_position pos row =
     (let price = close row
      in if p_direction pos = BUY
         then price \<le> p_stop_loss pos \<or> price \<ge> p_take_profit pos
         else price \<ge> p_stop_loss pos \<or> price \<le> p_take_profit pos)"

definition close_position :: "position \<Rightarrow> bar \<Rightarrow> real \<Rightarrow> trade" where
  "close_position pos row bal =
     (let xp = close row;
          xt = time row;
          pl = (if p_direction pos = BUY
                then (xp - p_entry_price pos) * p_lot_size pos * 100000
                else (p_entry_price pos - xp) * p_lot_size pos * 100000)
      in \<lparr>symbol = p_symbol pos, direction = p_direction pos,
          entry_price = p_entry_price pos, exit_price = xp,
          entry_time = p_entry_time pos, exit_time = xt,
          lot_size = p_lot_size pos, pnl = pl,
          duration = ts_nanos xt - ts_nanos (p_entry_time pos), t_status = CLOSED\<rparr>)"

text \<open>
  The local variables of \<open>simulate_trades\<close>, threaded through the loop over the rows.
\<close>

record sim_state =
  trades :: "trade list"
  balance :: real
  cur_position :: "position option"
  consecutive_losses :: nat
  daily_pnl :: real

definition init_state :: "config \<Rightarrow> sim_state" where
  "init_state cfg = \<lparr>trades = [], balance = initial_balance cfg, cur_position = None,
     consecutive_losses = 0, daily_pnl = 0\<rparr>"

text \<open>The state is IN-POSITION when the slot holds a position, FLAT otherwise.\<close>

definition in_position :: "sim_state \<Rightarrow> bool" where
  "in_position s = (cur_position s \<noteq> None)"

text \<open>
  The transitions of the position slot, in the order they happen: \<open>Closed\<close> where the
  loop calls \<open>close_position\<close>, \<open>Opened\<close> where it calls \<open>open_position\<close>.
\<close>

datatype event = Opened position | Closed trade

text \<open>The two \<open>continue\<close> guards at the top of the loop body.\<close>

definition daily_gate :: "config \<Rightarrow> sim_state \<Rightarrow> bool" where
  "daily_gate cfg s = (daily_pnl s \<le> - balance s * daily_loss_limit cfg / 100)"

definition loss_gate :: "sim_state \<Rightarrow> bool" where
  "loss_gate s = (consecutive_losses s \<ge> 3)"

text \<open>The block "Close existing position if conditions are met".\<close>

definition close_phase :: "sim_state \<Rightarrow> bar \<Rightarrow> sim_state \<times> event list" where
  "close_phase s row =
     (case cur_position s of
        None \<Rightarrow> (s, [])
      | Some pos \<Rightarrow>
          if should_close_position pos row
          then (let tr = close_position pos row (balance s)
                in (s\<lparr>trades := trades s @ [tr],
                       balance := balance s + pnl tr,
                       consecutive_losses :=
                         (if pnl tr < 0 then consecutive_losses s + 1 else 0),
                       daily_pnl := daily_pnl s + pnl tr,
                       cur_position := None\<rparr>, [Closed tr]))
          else (s, []))"

text \<open>
  The block "Open new position if signal exists".  \<open>None\<close> is the failure of
  \<open>calculate_position_size\<close>.
\<close>

definition open_phase :: "config \<Rightarrow> string \<Rightarrow> sim_state \<Rightarrow> bar \<Rightarrow> (sim_state \<times> event list) option" where
  "open_phase cfg symb s row =
     (if cur_position s = None
      then (if buy_signal row = 1
            then (case open_position cfg BUY row symb (balance s) of
                    None \<Rightarrow> None
                  | Some pos \<Rightarrow> Some (s\<lparr>cur_position := Some pos\<rparr>, [Opened pos]))
            else if sell_signal row = 1
            then (case open_position cfg SELL row symb (balance s) of
                    None \<Rightarrow> None
                  | Some pos \<Rightarrow> Some (s\<lparr>cur_position := Some pos\<rparr>, [Opened pos]))
            else Some (s, []))
      else Some (s, []))"

text \<open>One iteration of the loop: the new state and the transitions of this bar.\<close>

definition process_bar :: "config \<Rightarrow> string \<Rightarrow> sim_state \<Rightarrow> bar \<Rightarrow> (sim_state \<times> event list) option" where
  "process_bar cfg symb s row =
     (if daily_gate cfg s then Some (s, [])
      else if loss_gate s then Some (s, [])
      else (let (s1, ev1) = close_phase s row
            in case open_phase cfg symb s1 row of
                 None \<Rightarrow> None
               | Some (s2, ev2) \<Rightarrow> Some (s2, ev1 @ ev2)))"

text \<open>
  The loop over the rows, from any state.  The second component lists, bar by bar, the
  transitions made while that bar was processed.
\<close>

fun run_bars :: "config \<Rightarrow> string \<Rightarrow> sim_state \<Rightarrow> bar list \<Rightarrow> (sim_state \<times> event list list) option" where
  "run_bars cfg symb s [] = Some (s, [])"
| "run_bars cfg symb s (row # rows) =
     (case process_bar cfg symb s row of
        None \<Rightarrow> None
      | Some (s1, ev1) \<Rightarrow>
          (case run_bars cfg symb s1 rows of
             None \<Rightarrow> None
           | Some (s2, evs) \<Rightarrow> Some (s2, ev1 # evs)))"

definition simulate_trades :: "config \<Rightarrow> bar list \<Rightarrow> string \<Rightarrow> trade list option" where
  "simulate_trades cfg df symb =
     (case run_bars cfg symb (init_state cfg) df of
        None \<Rightarrow> None
      | Some (s, evs) \<Rightarrow> Some (trades s))"

text \<open>
  Replaying a sequence of transitions on the two-state machine FLAT / IN-POSITION
  (\<open>False\<close> / \<open>True\<close>): an \<open>Opened\<close> is legal only when FLAT, a \<open>Closed\<close> only when
  IN-POSITION.  The result is the final state, or \<open>None\<close> when a transition was illegal.
\<close>

fun track :: "bool \<Rightarrow> event list \<Rightarrow> bool option" where
  "track b [] = Some b"
| "track b (Opened p # es) = (if b then None else track True es)"
| "track b (Closed t # es) = (if b then track False es else None)"

text \<open>The transitions of one bar: at most one close, then at most one open.\<close>

fun close_before_open :: "event list \<Rightarrow> bool" where
  "close_before_open [] = True"
| "close_before_open [Closed t] = True"
| "close_before_open [Opened p] = True"
| "close_before_open [Closed t, Opened p] = True"
| "close_before_open es = False"

section \<open>Metrics calculator (backtest.py, monte\_carlo.py)\<close>

text \<open>
  The metrics are returned as a Python dict from field names to numbers.  An integer
  \<open>0\<close> in the else-branch of a guarded division is written as the float \<open>0\<close>.
\<close>

datatype pyval = PyInt int | PyFloat xfloat

type_synonym pydict = "string \<rightharpoonup> pyval"


definition np_mean :: "real list \<Rightarrow> real" where
  "np_mean xs = sum_list xs / real (length xs)"

text \<open>\<open>np.std\<close>: the population standard deviation.\<close>

definition np_std :: "real list \<Rightarrow> real" where
  "np_std xs = sqrt (np_mean (map (\<lambda>x. (x - np_mean xs)\<^sup>2) xs))"

fun cumsum_from :: "real \<Rightarrow> real list \<Rightarrow> real list" where
  "cumsum_from acc [] = []"
| "cumsum_from acc (x # xs) = (acc + x) # cumsum_from (acc + x) xs"

definition np_cumsum :: "real list \<Rightarrow> real list" where
  "np_cumsum xs = cumsum_from 0 xs"

fun maximum_accumulate_from :: "real \<Rightarrow> real list \<Rightarrow> real list" where
  "maximum_accumulate_from m [] = []"
| "maximum_accumulate_from m (x # xs) = max m x # maximum_accumulate_from (max m x) xs"

definition maximum_accumulate :: "real list \<Rightarrow> real list" where
  "maximum_accumulate xs =
     (case xs of [] \<Rightarrow> [] | x # rest \<Rightarrow> x # maximum_accumulate_from x rest)"

definition np_max :: "real list \<Rightarrow> real" where
  "np_max xs = foldl max (hd xs) (tl xs)"

text \<open>
  The drawdown block shared by \<open>calculate_performance_metrics\<close> and
  \<open>MonteCarloSimulator.calculate_max_drawdown\<close>.
\<close>

definition calculate_max_drawdown :: "real list \<Rightarrow> real" where
  "calculate_max_drawdown returns =
     (let cumulative_returns = np_cumsum returns;
          running_max = maximum_accumulate cumulative_returns;
          drawdown = map2 (\<lambda>m c. m - c) running_max cumulative_returns
      in if length drawdown > 0 then np_max drawdown else 0)"

definition calculate_performance_metrics :: "trade list \<Rightarrow> pydict" where
  "calculate_performance_metrics trs =
     (if trs = [] then Map.empty
      else
        (let returns = map pnl trs;
             total_trades = length trs;
             winning_trades = length (filter (\<lambda>x. x > 0) returns);
             losing_trades = length (filter (\<lambda>x. x < 0) returns);
             total_profit = sum_list (filter (\<lambda>x. x > 0) returns);
             total_loss = \<bar>sum_list (filter (\<lambda>x. x < 0) returns)\<bar>;
             net_profit = sum_list returns;
             win_rate = (if total_trades > 0
                         then real winning_trades / real total_trades * 100 else 0);
             profit_factor = (if total_loss > 0 then Fin (total_profit / total_loss) else PInf);
             sharpe_ratio = (if length returns > 1
                             then (if np_std returns > 0
                                   then np_mean returns / np_std returns * sqrt 252 else 0)
                             else 0);
             max_drawdown = calculate_max_drawdown returns;
             avg_win = (if winning_trades > 0 then total_profit / real winning_trades else 0);
             avg_loss = (if losing_trades > 0 then total_loss / real losing_trades else 0);
             expectancy = (win_rate / 100 * avg_win) - ((100 - win_rate) / 100 * avg_loss)
         in [''total_trades'' \<mapsto> PyInt (int total_trades),
             ''winning_trades'' \<mapsto> PyInt (int winning_trades),
             ''losing_trades'' \<mapsto> PyInt (int losing_trades),
             ''win_rate'' \<mapsto> PyFloat (Fin win_rate),
             ''net_profit'' \<mapsto> PyFloat (Fin net_profit),
             ''total_profit'' \<mapsto> PyFloat (Fin total_profit),
             ''total_loss'' \<mapsto> PyFloat (Fin total_loss),
             ''profit_factor'' \<mapsto> PyFloat profit_factor,
             ''max_drawdown'' \<mapsto> PyFloat (Fin max_drawdown),
             ''sharpe_ratio'' \<mapsto> PyFloat (Fin sharpe_ratio),
             ''expectancy'' \<mapsto> PyFloat (Fin expectancy),
             ''avg_win'' \<mapsto> PyFloat (Fin avg_win),
             ''avg_loss'' \<mapsto> PyFloat (Fin avg_loss)]))"

text \<open>The parameters read by \<open>MonteCarloSimulator.__init__\<close>.\<close>

record mc_config =
  simulation_runs :: int
  confidence_level :: real
  mc_initial_balance :: real

definition calculate_period_metrics :: "mc_config \<Rightarrow> trade list \<Rightarrow> pydict" where
  "calculate_period_metrics cfg period_trades =
     (if length period_trades = 0 then Map.empty
      else
        (let returns = map pnl period_trades;
             total_trades = length period_trades;
             winning_trades = length (filter (\<lambda>x. x > 0) returns);
             losing_trades = length (filter (\<lambda>x. x < 0) returns);
             total_profit = sum_list (filter (\<lambda>x. x > 0) returns);
             total_loss = \<bar>sum_list (filter (\<lambda>x. x < 0) returns)\<bar>;
             net_profit = sum_list returns;
             win_rate = (if total_trades > 0
                         then real winning_trades / real total_trades * 100 else 0);
             profit_factor = (if total_loss > 0 then Fin (total_profit / total_loss) else PInf);
             total_return = xmul (xdiv (Fin net_profit) (Fin (mc_initial_balance cfg))) (Fin 100);
             max_drawdown = calculate_max_drawdown returns
         in [''total_trades'' \<mapsto> PyInt (int total_trades),
             ''winning_trades'' \<mapsto> PyInt (int winning_trades),
             ''losing_trades'' \<mapsto> PyInt (int losing_trades),
             ''win_rate'' \<mapsto> PyFloat (Fin win_rate),
             ''net_profit'' \<mapsto> PyFloat (Fin net_profit),
             ''total_return'' \<mapsto> PyFloat total_return,
             ''profit_factor'' \<mapsto> PyFloat profit_factor,
             ''max_drawdown'' \<mapsto> PyFloat (Fin max_drawdown)]))"

section \<open>Relative-strength index (backtest.py, calculate\_indicators)\<close>










section \<open>Monte Carlo engine (monte\_carlo.py)\<close>



text \<open>One row of \<open>simulation_results\<close>.\<close>

record sim_run =
  run :: nat
  final_balance :: real
  total_return :: xfloat
  win_rate :: real
  max_drawdown :: real
  net_profit :: real














section \<open>Walk-forward engine (monte\_carlo.py)\<close>

text \<open>The minimum and the maximum of a column of timestamps.\<close>

definition ts_min :: "timestamp list \<Rightarrow> timestamp" where
  "ts_min ts = foldl (\<lambda>a b. if ts_less b a then b else a) (hd ts) (tl ts)"

definition ts_max :: "timestamp list \<Rightarrow> timestamp" where
  "ts_max ts = foldl (\<lambda>a b. if ts_less a b then b else a) (hd ts) (tl ts)"

text \<open>
  One element of \<open>walk_forward_results\<close>: the period metrics and the four keys added by
  the loop.
\<close>

record wf_period =
  metrics :: pydict
  period :: nat
  start_date :: timestamp
  end_date :: timestamp
  num_trades :: nat

text \<open>The trades of the window \<open>[period_start, period_end)\<close>.\<close>

definition period_filter :: "trade list \<Rightarrow> timestamp \<Rightarrow> timestamp \<Rightarrow> trade list" where
  "period_filter df period_start period_end =
     filter (\<lambda>t. ts_le period_start (exit_time t) \<and> ts_less (exit_time t) period_end) df"

text \<open>The dict appended to \<open>walk_forward_results\<close> for a window that holds trades.\<close>

definition period_result ::
    "mc_config \<Rightarrow> trade list \<Rightarrow> nat \<Rightarrow> timestamp \<Rightarrow> timestamp \<Rightarrow> wf_period" where
  "period_result cfg period_trades period_num period_start period_end =
     \<lparr>metrics = calculate_period_metrics cfg period_trades, period = period_num,
      start_date = period_start, end_date = period_end,
      num_trades = length period_trades\<rparr>"

text \<open>
  The while loop.  It does not terminate for every step (a step of zero months never
  advances), so it is a partial function: \<open>None\<close> is a loop that never returns.
\<close>

partial_function (option) wf_loop ::
    "mc_config \<Rightarrow> trade list \<Rightarrow> timestamp \<Rightarrow> int \<Rightarrow> int \<Rightarrow> timestamp \<Rightarrow> nat \<Rightarrow> wf_period list
       \<Rightarrow> wf_period list option" where
  "wf_loop cfg df end_d period_months step_months current_date period_num acc =
     (if ts_le (add_months period_months current_date) end_d
      then (let period_start = current_date;
                period_end = add_months period_months current_date;
                period_trades = period_filter df period_start period_end;
                acc' = (if length period_trades > 0
                        then acc @ [period_result cfg period_trades period_num
                                      period_start period_end]
                        else acc)
            in wf_loop cfg df end_d period_months step_months
                 (add_months step_months current_date) (period_num + 1) acc')
      else Some acc)"

declare wf_loop.simps [code]

text \<open>
  The sorted trade frame and its first and last exit time.  Trades with equal exit times
  keep their order in the sort.
\<close>

definition sort_by_exit :: "trade list \<Rightarrow> trade list" where
  "sort_by_exit trs = sort_key (\<lambda>t. ts_key (exit_time t)) trs"

definition first_exit :: "trade list \<Rightarrow> timestamp" where
  "first_exit trs = ts_min (map exit_time (sort_by_exit trs))"

definition last_exit :: "trade list \<Rightarrow> timestamp" where
  "last_exit trs = ts_max (map exit_time (sort_by_exit trs))"

text \<open>
  \<open>run_walk_forward_analysis\<close>, up to the list \<open>period_results\<close>; the summary statistics
  over the periods are not modelled.  \<open>WfEmpty\<close> is the empty dict returned when there
  are no trades.
\<close>

datatype wf_result = WfEmpty | WfPeriods "wf_period list"

definition run_walk_forward_analysis ::
    "mc_config \<Rightarrow> trade list \<Rightarrow> int \<Rightarrow> int \<Rightarrow> wf_result option" where
  "run_walk_forward_analysis cfg trs period_months step_months =
     (if trs = [] then Some WfEmpty
      else (let df_trades = sort_by_exit trs;
                start_d = first_exit trs;
                end_d = last_exit trs
            in map_option WfPeriods
                 (wf_loop cfg df_trades end_d period_months step_months start_d 0 [])))"

section \<open>Concrete inputs\<close>

definition mk_bar :: "int \<Rightarrow> int \<Rightarrow> int \<Rightarrow> int \<Rightarrow> real \<Rightarrow> int \<Rightarrow> int \<Rightarrow> bar" where
  "mk_bar y m d n c b s =
     \<lparr>time = \<lparr>year = y, month = m, day = d, nanos = n\<rparr>, close = c,
      buy_signal = b, sell_signal = s\<rparr>"

text \<open>
  Three bars of EURUSD under the default configuration: a buy on 1 January 2024, a close
  below the stop on the same day, and a buy signal on 2 January.
\<close>

definition day1_entry :: bar where
  "day1_entry = mk_bar 2024 1 1 0 (1100/1000) 1 0"

definition day1_stop :: bar where
  "day1_stop = mk_bar 2024 1 1 300 (1099/1000) 0 0"

definition day2_signal :: bar where
  "day2_signal = mk_bar 2024 1 2 0 (1100/1000) 1 0"

text \<open>
  An account of 10000 and four bars on which three long positions in a row are stopped
  out; then a bar with a buy signal and a bar 12 pips higher.
\<close>

definition large_account :: config where
  "large_account = default_config\<lparr>initial_balance := 10000\<rparr>"

definition three_losses :: "bar list" where
  "three_losses =
     [mk_bar 2024 1 1 0 (1100/1000) 1 0,
      mk_bar 2024 1 1 300 (1099/1000) 1 0,
      mk_bar 2024 1 1 600 (1098/1000) 1 0,
      mk_bar 2024 1 1 900 (1097/1000) 0 0]"

definition later_bars :: "bar list" where
  "later_bars =
     [mk_bar 2024 1 1 1200 (1097/1000) 1 0,
      mk_bar 2024 1 1 1500 (10982/10000) 0 0]"

text \<open>A closed EURUSD trade with the given profit or loss; the other fields are fixed.\<close>

definition pnl_trade :: "real \<Rightarrow> trade" where
  "pnl_trade x =
     \<lparr>symbol = ''EURUSD=X'', direction = BUY, entry_price = 1, exit_price = 1,
      entry_time = \<lparr>year = 2024, month = 1, day = 1, nanos = 0\<rparr>,
      exit_time = \<lparr>year = 2024, month = 1, day = 2, nanos = 0\<rparr>,
      lot_size = 1/100, pnl = x, duration = 86400000000000, t_status = CLOSED\<rparr>"

definition ten_trades :: "trade list" where
  "ten_trades = map pnl_trade [50, - 20, 30, - 10, 40, - 15, 25, - 5, 60, - 30]"

text \<open>
  Gross profit and gross loss of a trade sequence, as the data model words them: the sum
  of the positive P&L values, and the absolute value of the sum of the negative ones.
\<close>

definition gross_profit :: "trade list \<Rightarrow> real" where
  "gross_profit trs = sum_list (filter (\<lambda>x. x > 0) (map pnl trs))"

definition gross_loss :: "trade list \<Rightarrow> real" where
  "gross_loss trs = \<bar>sum_list (filter (\<lambda>x. x < 0) (map pnl trs))\<bar>"



text \<open>
  The default Monte Carlo parameters, the same with an initial balance of zero, and two
  simulation rows with a gain of 10 percent and a loss of 5 percent.
\<close>

definition default_mc :: mc_config where
  "default_mc = \<lparr>simulation_runs = 1000, confidence_level = 95, mc_initial_balance = 10\<rparr>"



text \<open>
  A trade that exits on the given day, one hour after its entry, and two logs whose exit
  times span exactly 13 months, from 15 January 2023 to 15 February 2024.
\<close>

definition exit_trade :: "int \<Rightarrow> int \<Rightarrow> int \<Rightarrow> real \<Rightarrow> trade" where
  "exit_trade y m d x =
     (pnl_trade x)\<lparr>entry_time := \<lparr>year = y, month = m, day = d, nanos = 0\<rparr>,
                   exit_time := \<lparr>year = y, month = m, day = d, nanos = 3600000000000\<rparr>,
                   duration := 3600000000000\<rparr>"

definition two_trade_log :: "trade list" where
  "two_trade_log = [exit_trade 2023 1 15 10, exit_trade 2024 2 15 (- 4)]"

definition three_trade_log :: "trade list" where
  "three_trade_log =
     [exit_trade 2023 6 15 7, exit_trade 2024 2 15 (- 4), exit_trade 2023 1 15 10]"

section \<open>The trade simulator\<close>

subsection \<open>Transitions of one bar and of a run\<close>

lemma track_append:
  "track b (e1 @ e2) = (case track b e1 of None \<Rightarrow> None | Some b' \<Rightarrow> track b' e2)"
  by (induction b e1 rule: track.induct) auto

lemma close_phase_track:
  assumes "close_phase s row = (s1, ev1)"
  shows "track (in_position s) ev1 = Some (in_position s1)"
    and "ev1 = [] \<or> (\<exists>t. ev1 = [Closed t])"
  using assms by (auto simp: close_phase_def in_position_def Let_def split: option.splits if_splits)

lemma position_size_defined:
  "d \<noteq> 0 \<Longrightarrow> \<exists>lot. calculate_position_size cfg bal price d = Some lot"
  by (simp add: calculate_position_size_def Let_def)

lemma open_position_defined:
  assumes "stop_loss_pips cfg \<noteq> 0"
  shows "\<exists>pos. open_position cfg dir row symb bal = Some pos"
proof -
  let ?d = "stop_loss_pips cfg * (if \<not> str_contains ''JPY'' symb then 1/10000 else 1/100)"
  have "?d \<noteq> 0" using assms by simp
  then obtain lot where "calculate_position_size cfg bal (close row) ?d = Some lot"
    using position_size_defined by blast
  then show ?thesis by (simp add: open_position_def Let_def)
qed

lemma open_phase_track:
  assumes "stop_loss_pips cfg \<noteq> 0"
  shows "\<exists>s2 ev2. open_phase cfg symb s1 row = Some (s2, ev2)
           \<and> track (in_position s1) ev2 = Some (in_position s2)
           \<and> (ev2 = [] \<or> (\<exists>p. ev2 = [Opened p]))"
proof -
  obtain pb where pb: "open_position cfg BUY row symb (balance s1) = Some pb"
    using open_position_defined [OF assms] by blast
  obtain ps where ps: "open_position cfg SELL row symb (balance s1) = Some ps"
    using open_position_defined [OF assms] by blast
  show ?thesis by (simp add: open_phase_def in_position_def pb ps)
qed

lemma process_bar_track:
  assumes "stop_loss_pips cfg \<noteq> 0"
  shows "\<exists>s' ev. process_bar cfg symb s row = Some (s', ev)
           \<and> track (in_position s) ev = Some (in_position s')
           \<and> close_before_open ev"
proof (cases "daily_gate cfg s \<or> loss_gate s")
  case True
  then show ?thesis by (auto simp: process_bar_def)
next
  case False
  obtain s1 ev1 where c: "close_phase s row = (s1, ev1)" by (cases "close_phase s row")
  obtain s2 ev2 where o: "open_phase cfg symb s1 row = Some (s2, ev2)"
    and t2: "track (in_position s1) ev2 = Some (in_position s2)"
    and sh2: "ev2 = [] \<or> (\<exists>p. ev2 = [Opened p])"
    using open_phase_track [OF assms] by blast
  have t1: "track (in_position s) ev1 = Some (in_position s1)"
    and sh1: "ev1 = [] \<or> (\<exists>t. ev1 = [Closed t])"
    using close_phase_track [OF c] by auto
  have p: "process_bar cfg symb s row = Some (s2, ev1 @ ev2)"
    using False c o by (simp add: process_bar_def)
  have "track (in_position s) (ev1 @ ev2) = Some (in_position s2)"
    by (simp add: track_append t1 t2)
  moreover have "close_before_open (ev1 @ ev2)"
    using sh1 sh2 by auto
  ultimately show ?thesis using p by blast
qed

lemma run_bars_track:
  assumes "stop_loss_pips cfg \<noteq> 0"
  shows "\<exists>s' evs. run_bars cfg symb s bars = Some (s', evs)
           \<and> length evs = length bars
           \<and> list_all close_before_open evs
           \<and> track (in_position s) (concat evs) = Some (in_position s')"
proof (induction bars arbitrary: s)
  case Nil
  show ?case by simp
next
  case (Cons row rows)
  obtain s1 ev1 where p: "process_bar cfg symb s row = Some (s1, ev1)"
    and t1: "track (in_position s) ev1 = Some (in_position s1)"
    and o1: "close_before_open ev1"
    using process_bar_track [OF assms] by blast
  obtain s2 evs where r: "run_bars cfg symb s1 rows = Some (s2, evs)"
    and l: "length evs = length rows"
    and a: "list_all close_before_open evs"
    and t2: "track (in_position s1) (concat evs) = Some (in_position s2)"
    using Cons.IH by blast
  have "run_bars cfg symb s (row # rows) = Some (s2, ev1 # evs)"
    by (simp add: p r)
  moreover have "track (in_position s) (concat (ev1 # evs)) = Some (in_position s2)"
    by (simp add: track_append t1 t2)
  ultimately show ?case using l a o1 by simp
qed

subsection \<open>The risk gates\<close>



subsection \<open>Evaluation of concrete runs\<close>

lemmas sim_defs = process_bar_def close_phase_def open_phase_def open_position_def
  close_position_def should_close_position_def calculate_position_size_def round2_def
  daily_gate_def loss_gate_def init_state_def default_config_def Let_def



lemmas bar_defs = mk_bar_def day1_entry_def day1_stop_def day2_signal_def
  large_account_def three_losses_def later_bars_def

text \<open>
  C9.  For every bar sequence the simulator holds at most one open position: replayed from
  FLAT, every open transition of the run happens in state FLAT and every close in state
  IN-POSITION, the replay ends in the state of the position slot, and the transitions of
  a single bar are at most one close followed by at most one open.  The run returns
  whenever the configured stop distance is not zero.
\<close>

theorem one_position_at_a_time:
  assumes "stop_loss_pips cfg \<noteq> 0"
  shows "\<exists>s evs. run_bars cfg symb (init_state cfg) bars = Some (s, evs)
           \<and> length evs = length bars
           \<and> list_all close_before_open evs
           \<and> track False (concat evs) = Some (in_position s)"
proof -
  have "in_position (init_state cfg) = False"
    by (simp add: in_position_def init_state_def)
  then show ?thesis
    using run_bars_track [OF assms, of symb "init_state cfg" bars] by simp
qed

theorem one_position_at_a_time_witness:
  "stop_loss_pips default_config \<noteq> 0
   \<and> (\<exists>s evs. run_bars default_config ''EURUSD=X'' (init_state default_config)
                  [day1_entry, day1_stop, day2_signal] = Some (s, evs)
        \<and> length evs = 3
        \<and> list_all close_before_open evs
        \<and> track False (concat evs) = Some (in_position s))"
proof -
  have h: "stop_loss_pips default_config \<noteq> 0" by (simp add: default_config_def)
  have l: "length [day1_entry, day1_stop, day2_signal] = 3" by simp
  show ?thesis
    using h one_position_at_a_time [OF h, of "''EURUSD=X''" "[day1_entry, day1_stop, day2_signal]"]
    unfolding l by blast
qed

text \<open>
  C1.  The daily P&L accumulator is not reset at a day boundary.  Under the default
  configuration a position bought on 1 January and stopped out the same day leaves the
  accumulator at -1 with a balance of 9, below the limit of -0.27.  The bar of 2 January
  carries a buy signal and is skipped: no transition is made on it, the accumulator is
  still -1 and no position is open.
\<close>

theorem daily_gate_holds_on_next_day:
  "map_option (\<lambda>(s, evs). (daily_pnl s, balance s, cur_position s, map pnl (trades s)))
     (run_bars default_config ''EURUSD=X'' (init_state default_config) [day1_entry, day1_stop])
     = Some (- 1, 9, None, [- 1])
   \<and> calendar_day (time day1_stop) = (2024, 1, 1)
   \<and> calendar_day (time day2_signal) = (2024, 1, 2)
   \<and> buy_signal day2_signal = 1
   \<and> map_option (\<lambda>(s, evs). (daily_pnl s, balance s, cur_position s, map pnl (trades s), evs ! 2))
       (run_bars default_config ''EURUSD=X'' (init_state default_config)
          [day1_entry, day1_stop, day2_signal])
     = Some (- 1, 9, None, [- 1], [])"
  by (simp add: sim_defs bar_defs calendar_day_def)





section \<open>The metrics calculator\<close>


text \<open>
  C4 (as amended).  For every nonempty trade sequence the profit factor is gross profit
  divided by gross loss when the gross loss is positive, and plus infinity whenever the
  gross loss is zero, also when the gross profit is zero as well.  For the empty sequence
  the dict has no profit factor.  The period metrics of the walk-forward engine compute
  the same value.
\<close>

theorem profit_factor_value:
  "calculate_performance_metrics trs ''profit_factor'' =
     (if trs = [] then None
      else Some (PyFloat (if gross_loss trs > 0
                          then Fin (gross_profit trs / gross_loss trs) else PInf)))
   \<and> calculate_period_metrics cfg trs ''profit_factor'' =
     (if trs = [] then None
      else Some (PyFloat (if gross_loss trs > 0
                          then Fin (gross_profit trs / gross_loss trs) else PInf)))"
  by (simp add: calculate_performance_metrics_def calculate_period_metrics_def
      gross_profit_def gross_loss_def Let_def)

text \<open>
  C4 as stated fails: for a single trade with a P&L of zero both gross profit and gross
  loss are zero and the profit factor is plus infinity, not 0.
\<close>

theorem profit_factor_counterexample:
  "gross_profit [pnl_trade 0] = 0 \<and> gross_loss [pnl_trade 0] = 0
   \<and> calculate_performance_metrics [pnl_trade 0] ''profit_factor'' = Some (PyFloat PInf)
   \<and> calculate_performance_metrics [pnl_trade 0] ''profit_factor'' \<noteq> Some (PyFloat (Fin 0))"
  by (simp add: calculate_performance_metrics_def gross_profit_def gross_loss_def Let_def
      pnl_trade_def)

text \<open>
  C5.  For a trade sequence with the P&L values 50, -20, 30, -10, 40, -15, 25, -5, 60, -30
  the metrics calculator reports 5 winning trades, 5 losing trades, a net profit of 125
  and a win rate of 50.0.  The initial balance is not an input of the calculator.
\<close>

theorem ten_trades_metrics:
  assumes "map pnl trs = [50, - 20, 30, - 10, 40, - 15, 25, - 5, 60, - 30]"
  shows "calculate_performance_metrics trs ''winning_trades'' = Some (PyInt 5)
       \<and> calculate_performance_metrics trs ''losing_trades'' = Some (PyInt 5)
       \<and> calculate_performance_metrics trs ''net_profit'' = Some (PyFloat (Fin 125))
       \<and> calculate_performance_metrics trs ''win_rate'' = Some (PyFloat (Fin 50))"
proof -
  have ne: "trs \<noteq> []" using assms by auto
  have len: "length trs = 10"
    using arg_cong [OF assms, of length] by simp
  show ?thesis
    by (simp add: calculate_performance_metrics_def Let_def ne len assms)
qed

theorem ten_trades_metrics_witness:
  "map pnl ten_trades = [50, - 20, 30, - 10, 40, - 15, 25, - 5, 60, - 30]
   \<and> calculate_performance_metrics ten_trades ''winning_trades'' = Some (PyInt 5)
   \<and> calculate_performance_metrics ten_trades ''losing_trades'' = Some (PyInt 5)
   \<and> calculate_performance_metrics ten_trades ''net_profit'' = Some (PyFloat (Fin 125))
   \<and> calculate_performance_metrics ten_trades ''win_rate'' = Some (PyFloat (Fin 50))"
proof -
  have h: "map pnl ten_trades = [50, - 20, 30, - 10, 40, - 15, 25, - 5, 60, - 30]"
    by (simp add: ten_trades_def pnl_trade_def)
  show ?thesis using h ten_trades_metrics [OF h] by blast
qed

section \<open>The relative-strength index\<close>




















section \<open>The Monte Carlo engine\<close>

subsection \<open>Resampling a single trade\<close>















subsection \<open>Target probabilities\<close>






section \<open>The walk-forward engine\<close>

subsection \<open>Month arithmetic\<close>

lemma month_index_add_months: "month_index (add_months n t) = month_index t + n"
  by (simp add: add_months_def month_index_def Let_def)

lemma nanos_add_months: "nanos (add_months n t) = nanos t"
  by (simp add: add_months_def Let_def)

lemma day_add_months:
  "day (add_months n t) =
     min (day t) (days_in_month ((month_index t + n) div 12) ((month_index t + n) mod 12 + 1))"
  by (simp add: add_months_def Let_def)

lemma ts_le_iff:
  "ts_le a b \<longleftrightarrow>
     month_index a < month_index b
     \<or> month_index a = month_index b
        \<and> (day a < day b \<or> day a = day b \<and> nanos a \<le> nanos b)"
  by (auto simp: ts_le_def ts_key_def)

lemma ts_less_iff:
  "ts_less a b \<longleftrightarrow>
     month_index a < month_index b
     \<or> month_index a = month_index b
        \<and> (day a < day b \<or> day a = day b \<and> nanos a < nanos b)"
  by (auto simp: ts_less_def ts_key_def)

lemma ts_le_refl: "ts_le a a"
  by (simp add: ts_le_def)

lemma ts_less_add_months: "0 < n \<Longrightarrow> ts_less t (add_months n t)"
  by (simp add: ts_less_iff month_index_add_months)

lemma day_add_months_twice:
  "day (add_months m (add_months n t)) \<le> day (add_months (n + m) t)"
proof -
  have e: "month_index t + n + m = month_index t + (n + m)" by simp
  show ?thesis
    unfolding day_add_months month_index_add_months e by (simp add: min_le_iff_disj)
qed

text \<open>
  The three tests of the loop condition when the last exit is 13 months after the first.
\<close>

lemma span_13_tests:
  assumes "ts_key e = ts_key (add_months 13 s)"
  shows "ts_le (add_months 12 s) e"
    and "ts_le (add_months 12 (add_months 1 s)) e"
    and "\<not> ts_le (add_months 12 (add_months 1 (add_months 1 s))) e"
proof -
  have m: "month_index e = month_index s + 13"
    and d: "day e = day (add_months 13 s)"
    and n: "nanos e = nanos s"
    using assms by (simp_all add: ts_key_def month_index_add_months nanos_add_months)
  show "ts_le (add_months 12 s) e"
    by (simp add: ts_le_iff month_index_add_months m)
  have "day (add_months 12 (add_months 1 s)) \<le> day (add_months 13 s)"
    using day_add_months_twice [of 12 1 s] by simp
  then show "ts_le (add_months 12 (add_months 1 s)) e"
    by (auto simp: ts_le_iff month_index_add_months nanos_add_months m d n)
  show "\<not> ts_le (add_months 12 (add_months 1 (add_months 1 s))) e"
    by (simp add: ts_le_iff month_index_add_months m)
qed

subsection \<open>The window loop\<close>

lemma wf_loop_stop:
  "\<not> ts_le (add_months p cur) e \<Longrightarrow> wf_loop cfg df e p st cur k acc = Some acc"
  by (subst wf_loop.simps) simp

lemma wf_loop_step:
  "ts_le (add_months p cur) e \<Longrightarrow>
   wf_loop cfg df e p st cur k acc =
     wf_loop cfg df e p st (add_months st cur) (k + 1)
       (if length (period_filter df cur (add_months p cur)) > 0
        then acc @ [period_result cfg (period_filter df cur (add_months p cur)) k cur
                      (add_months p cur)]
        else acc)"
  by (subst wf_loop.simps) (simp add: Let_def)

lemma foldl_pick_in:
  "foldl (\<lambda>a b. if P a b then b else a) x xs \<in> set (x # xs)"
  by (induction xs arbitrary: x) auto

lemma ts_min_in: "ts \<noteq> [] \<Longrightarrow> ts_min ts \<in> set ts"
  using foldl_pick_in [of "\<lambda>a b. ts_less b a" "hd ts" "tl ts"]
  by (simp add: ts_min_def)

lemma first_exit_in:
  assumes "trs \<noteq> []"
  shows "\<exists>t\<in>set (sort_by_exit trs). exit_time t = first_exit trs"
proof -
  have "length (map exit_time (sort_by_exit trs)) = length trs"
    by (simp add: sort_by_exit_def)
  then have "map exit_time (sort_by_exit trs) \<noteq> []"
    using assms by (metis length_0_conv)
  then have "first_exit trs \<in> set (map exit_time (sort_by_exit trs))"
    unfolding first_exit_def by (rule ts_min_in)
  then show ?thesis by auto
qed

lemma first_window_nonempty:
  assumes "trs \<noteq> []"
  shows "period_filter (sort_by_exit trs) (first_exit trs) (add_months 12 (first_exit trs)) \<noteq> []"
proof -
  obtain t where t: "t \<in> set (sort_by_exit trs)" and e: "exit_time t = first_exit trs"
    using first_exit_in [OF assms] by blast
  have "ts_le (first_exit trs) (exit_time t)" by (simp add: e ts_le_refl)
  moreover have "ts_less (exit_time t) (add_months 12 (first_exit trs))"
    by (simp add: e ts_less_add_months)
  ultimately have "t \<in> set (period_filter (sort_by_exit trs) (first_exit trs)
                              (add_months 12 (first_exit trs)))"
    using t by (simp add: period_filter_def)
  then show ?thesis by auto
qed

lemma walk_forward_13_months:
  assumes "trs \<noteq> []"
    and "ts_key (last_exit trs) = ts_key (add_months 13 (first_exit trs))"
  shows "run_walk_forward_analysis cfg trs 12 1 =
           Some (WfPeriods
             (period_result cfg
                (period_filter (sort_by_exit trs) (first_exit trs)
                   (add_months 12 (first_exit trs)))
                0 (first_exit trs) (add_months 12 (first_exit trs))
              # (if period_filter (sort_by_exit trs) (add_months 1 (first_exit trs))
                     (add_months 12 (add_months 1 (first_exit trs))) = []
                 then []
                 else [period_result cfg
                         (period_filter (sort_by_exit trs) (add_months 1 (first_exit trs))
                            (add_months 12 (add_months 1 (first_exit trs))))
                         1 (add_months 1 (first_exit trs))
                         (add_months 12 (add_months 1 (first_exit trs)))])))"
proof -
  let ?df = "sort_by_exit trs"
  let ?s = "first_exit trs"
  let ?e = "last_exit trs"
  let ?w0 = "period_filter ?df ?s (add_months 12 ?s)"
  let ?w1 = "period_filter ?df (add_months 1 ?s) (add_months 12 (add_months 1 ?s))"
  let ?a1 = "[period_result cfg ?w0 0 ?s (add_months 12 ?s)]"
  let ?a2 = "if 0 < length ?w1
             then ?a1 @ [period_result cfg ?w1 1 (add_months 1 ?s)
                           (add_months 12 (add_months 1 ?s))]
             else ?a1"
  note tests = span_13_tests [OF assms(2)]
  have ne0: "0 < length ?w0" using first_window_nonempty [OF assms(1)] by simp
  have "wf_loop cfg ?df ?e 12 1 ?s 0 [] = wf_loop cfg ?df ?e 12 1 (add_months 1 ?s) 1 ?a1"
    using wf_loop_step [OF tests(1), of cfg ?df 1 0 "[]"] ne0 by simp
  also have "\<dots> = wf_loop cfg ?df ?e 12 1 (add_months 1 (add_months 1 ?s)) 2 ?a2"
    using wf_loop_step [OF tests(2), of cfg ?df 1 1 ?a1] by (simp add: numeral_2_eq_2)
  also have "\<dots> = Some ?a2"
    by (rule wf_loop_stop [OF tests(3)])
  finally have "wf_loop cfg ?df ?e 12 1 ?s 0 [] = Some ?a2" .
  then show ?thesis
    using assms(1) by (simp add: run_walk_forward_analysis_def Let_def)
qed


text \<open>
  C8 (as amended).  For every nonempty trade log whose last exit is exactly 13 months after
  its first exit, the engine with a 12-month period and a 1-month step returns, and its
  loop runs exactly twice.  Window 0 starts at the first exit and always yields a result.
  Window 1 starts one month later and yields a result only if some trade exits in it.
  Each result carries the period metrics of exactly the trades whose exit time lies in the
  half-open interval from the window start to the window end.
\<close>

theorem walk_forward_13_month_windows:
  assumes "trs \<noteq> []"
    and "ts_key (last_exit trs) = ts_key (add_months 13 (first_exit trs))"
  shows "run_walk_forward_analysis cfg trs 12 1 =
           Some (WfPeriods
             (period_result cfg
                (period_filter (sort_by_exit trs) (first_exit trs)
                   (add_months 12 (first_exit trs)))
                0 (first_exit trs) (add_months 12 (first_exit trs))
              # (if period_filter (sort_by_exit trs) (add_months 1 (first_exit trs))
                     (add_months 12 (add_months 1 (first_exit trs))) = []
                 then []
                 else [period_result cfg
                         (period_filter (sort_by_exit trs) (add_months 1 (first_exit trs))
                            (add_months 12 (add_months 1 (first_exit trs))))
                         1 (add_months 1 (first_exit trs))
                         (add_months 12 (add_months 1 (first_exit trs)))])))"
  using assms by (rule walk_forward_13_months)

lemmas ts_eval = ts_key_def ts_le_def ts_less_def ts_min_def ts_max_def month_index_def
  add_months_def days_in_month_def is_leap_def Let_def

lemma three_trade_log_sorted:
  "sort_by_exit three_trade_log =
     [exit_trade 2023 1 15 10, exit_trade 2023 6 15 7, exit_trade 2024 2 15 (- 4)]"
  by (simp add: sort_by_exit_def three_trade_log_def exit_trade_def pnl_trade_def ts_eval)

lemma three_trade_log_first:
  "first_exit three_trade_log = \<lparr>year = 2023, month = 1, day = 15, nanos = 3600000000000\<rparr>"
  by (simp add: first_exit_def three_trade_log_sorted exit_trade_def pnl_trade_def ts_eval)

lemma three_trade_log_last:
  "last_exit three_trade_log = \<lparr>year = 2024, month = 2, day = 15, nanos = 3600000000000\<rparr>"
  by (simp add: last_exit_def three_trade_log_sorted exit_trade_def pnl_trade_def ts_eval)

lemma two_trade_log_sorted: "sort_by_exit two_trade_log = two_trade_log"
  by (simp add: sort_by_exit_def two_trade_log_def exit_trade_def pnl_trade_def ts_eval)

lemma two_trade_log_first:
  "first_exit two_trade_log = \<lparr>year = 2023, month = 1, day = 15, nanos = 3600000000000\<rparr>"
  by (simp add: first_exit_def two_trade_log_sorted)
     (simp add: two_trade_log_def exit_trade_def pnl_trade_def ts_eval)

lemma two_trade_log_last:
  "last_exit two_trade_log = \<lparr>year = 2024, month = 2, day = 15, nanos = 3600000000000\<rparr>"
  by (simp add: last_exit_def two_trade_log_sorted)
     (simp add: two_trade_log_def exit_trade_def pnl_trade_def ts_eval)

theorem walk_forward_13_month_windows_witness:
  "three_trade_log \<noteq> []
   \<and> ts_key (last_exit three_trade_log) = ts_key (add_months 13 (first_exit three_trade_log))
   \<and> (\<exists>w0 w1. run_walk_forward_analysis default_mc three_trade_log 12 1
                  = Some (WfPeriods [w0, w1])
         \<and> period w0 = 0 \<and> map pnl (period_filter (sort_by_exit three_trade_log)
                                      (start_date w0) (end_date w0)) = [10, 7]
         \<and> num_trades w0 = 2
         \<and> period w1 = 1 \<and> map pnl (period_filter (sort_by_exit three_trade_log)
                                      (start_date w1) (end_date w1)) = [7]
         \<and> num_trades w1 = 1)"
proof -
  have a: "three_trade_log \<noteq> []" by (simp add: three_trade_log_def)
  have b: "ts_key (last_exit three_trade_log)
           = ts_key (add_months 13 (first_exit three_trade_log))"
    by (simp add: three_trade_log_first three_trade_log_last ts_eval)
  have w0: "period_filter (sort_by_exit three_trade_log) (first_exit three_trade_log)
              (add_months 12 (first_exit three_trade_log))
            = [exit_trade 2023 1 15 10, exit_trade 2023 6 15 7]"
    by (simp add: three_trade_log_first three_trade_log_sorted period_filter_def
        exit_trade_def pnl_trade_def ts_eval)
  have w1: "period_filter (sort_by_exit three_trade_log)
              (add_months 1 (first_exit three_trade_log))
              (add_months 12 (add_months 1 (first_exit three_trade_log)))
            = [exit_trade 2023 6 15 7]"
    by (simp add: three_trade_log_first three_trade_log_sorted period_filter_def
        exit_trade_def pnl_trade_def ts_eval)
  have p: "pnl (exit_trade y m d x) = x" for y m d x
    by (simp add: exit_trade_def pnl_trade_def)
  show ?thesis
    using a b walk_forward_13_month_windows [OF a b, of default_mc]
    by (simp add: w0 w1 p period_result_def)
qed

text \<open>
  C8 as stated fails: a log of two trades that exit on 15 January 2023 and on 15 February
  2024 spans exactly 13 months, and the engine produces one window, not two.  The second
  window ends at the last exit, which the half-open interval excludes, and is skipped.
\<close>

theorem walk_forward_one_window_counterexample:
  "ts_key (last_exit two_trade_log) = ts_key (add_months 13 (first_exit two_trade_log))
   \<and> (\<exists>w. run_walk_forward_analysis default_mc two_trade_log 12 1 = Some (WfPeriods [w])
          \<and> period w = 0 \<and> num_trades w = 1)"
proof -
  have a: "two_trade_log \<noteq> []" by (simp add: two_trade_log_def)
  have b: "ts_key (last_exit two_trade_log) = ts_key (add_months 13 (first_exit two_trade_log))"
    by (simp add: two_trade_log_first two_trade_log_last ts_eval)
  have w0: "period_filter (sort_by_exit two_trade_log) (first_exit two_trade_log)
              (add_months 12 (first_exit two_trade_log))
            = [exit_trade 2023 1 15 10]"
    by (simp add: two_trade_log_first two_trade_log_sorted period_filter_def)
       (simp add: two_trade_log_def exit_trade_def pnl_trade_def ts_eval)
  have w1: "period_filter (sort_by_exit two_trade_log)
              (add_months 1 (first_exit two_trade_log))
              (add_months 12 (add_months 1 (first_exit two_trade_log)))
            = []"
    by (simp add: two_trade_log_first two_trade_log_sorted period_filter_def)
       (simp add: two_trade_log_def exit_trade_def pnl_trade_def ts_eval)
  show ?thesis
    using b walk_forward_13_months [OF a b, of default_mc]
    by (simp add: w0 w1 period_result_def)
qed

end
